theory Spec2Isabelle
  imports Main "HOL-Library.AList"
begin

text \<open>
  The song service of \<open>backend/routes.py\<close>: a Flask module that seeds the \<open>songs\<close>
  collection of a MongoDB database when it is imported and serves seven routes over it.
  The handlers are embedded as functions from the state of the database to a response
  and the state after; the driver (pymongo), the server and the framework appear as far
  as the handlers use them.
\<close>

section \<open>Values\<close>

text \<open>
  A request body and the seed file are JSON; \<open>request.get_json()\<close> and \<open>json.load\<close>
  turn them into Python values (dict, list, str, int, bool, None). Numbers with a
  fraction are left out, and a character of a string is a code point below 256. A dict
  is an association list in the order of its keys.
\<close>

datatype json =
    JNull
  | JBool bool
  | JInt int
  | JStr string
  | JArr "json list"
  | JObj "(string \<times> json) list"

text \<open>
  A value read back from the collection is either such a value or the \<open>ObjectId\<close> the
  driver generated for \<open>_id\<close>; the generated identifiers are numbered.
\<close>

datatype bson = ObjectId nat | Val json

type_synonym document = "(string \<times> bson) list"

text \<open>
  The exceptions that reach the \<open>except Exception\<close> clause of a handler.
  \<open>EncodingError\<close> stands for what \<open>bson\<close> raises when it cannot encode a value
  (OverflowError on an integer outside 64 bits, InvalidDocument on a key with a NUL),
  \<open>OperationFailure\<close> for the server's refusal of a filter.
\<close>

datatype py_error =
    KeyError string
  | TypeError
  | BadRequest
  | EncodingError
  | OperationFailure
  | WriteError
  | DuplicateKeyError
  | BulkWriteError
  | ConnectionFailure

text \<open>
  What a client receives: \<open>jsonify(x)\<close> (a JSON object is given by its fields;
  \<open>jsonify\<close> may write them in another order), the body \<open>{"error": str(e)}\<close> of an except
  clause and \<open>{"status": "unhealthy", "error": str(e)}\<close> of the health check (both kept
  as the exception, its text being the library's), the empty string of DELETE, or the
  framework's own page when no route matches; and the status code.
\<close>

datatype body = Body json | ErrorBody py_error | UnhealthyBody py_error | NoBody | NotFoundPage

type_synonym response = "body \<times> nat"

section \<open>Rendering\<close>

definition digit :: "nat \<Rightarrow> char" where
  "digit n = ''0123456789abcdef'' ! n"

function str_nat :: "nat \<Rightarrow> string" where
  "str_nat n = (if n < 10 then [digit n] else str_nat (n div 10) @ [digit (n mod 10)])"
  by pat_completeness auto
termination
  by (relation "measure id") auto

declare str_nat.simps [simp del]

definition str_int :: "int \<Rightarrow> string" where
  "str_int i = (if i < 0 then ''-'' @ str_nat (nat (- i)) else str_nat (nat i))"

text \<open>The last \<open>k\<close> hexadecimal digits of a number.\<close>

fun hex :: "nat \<Rightarrow> nat \<Rightarrow> string" where
  "hex 0 n = []"
| "hex (Suc k) n = hex k (n div 16) @ [digit (n mod 16)]"

text \<open>\<open>str(ObjectId)\<close>: the 24 hexadecimal digits of its 12 bytes.\<close>

definition oid_str :: "nat \<Rightarrow> string" where
  "oid_str n = hex 24 n"

fun join :: "string list \<Rightarrow> string" where
  "join [] = []"
| "join [x] = x"
| "join (x # y # ys) = x @ '', '' @ join (y # ys)"

text \<open>
  \<open>repr\<close> of a str: between double quotes when it holds a single quote and no double
  one, between single quotes otherwise; the quote and the backslash escaped, tab,
  newline and return by their letters, every other character that is not printable
  as \<open>\xNN\<close>.
\<close>

definition printable :: "char \<Rightarrow> bool" where
  "printable c =
     (let n = (of_char c :: nat) in (32 \<le> n \<and> n \<le> 126) \<or> (161 \<le> n \<and> n \<noteq> 173))"

definition escape :: "char \<Rightarrow> char \<Rightarrow> string" where
  "escape q c =
     (if c = q \<or> c = CHR 0x5C then [CHR 0x5C, c]
      else if c = CHR 0x09 then [CHR 0x5C, CHR ''t'']
      else if c = CHR 0x0A then [CHR 0x5C, CHR ''n'']
      else if c = CHR 0x0D then [CHR 0x5C, CHR ''r'']
      else if printable c then [c]
      else [CHR 0x5C, CHR ''x''] @ hex 2 (of_char c))"

definition repr_str :: "string \<Rightarrow> string" where
  "repr_str s =
     (let q = (if CHR 0x27 \<in> set s \<and> CHR 0x22 \<notin> set s then CHR 0x22 else CHR 0x27)
      in [q] @ concat (map (escape q) s) @ [q])"

text \<open>Python's \<open>repr\<close> and \<open>str\<close> of a value, as an f-string and \<open>str()\<close> apply them.\<close>

fun py_repr :: "json \<Rightarrow> string" where
  "py_repr JNull = ''None''"
| "py_repr (JBool b) = (if b then ''True'' else ''False'')"
| "py_repr (JInt i) = str_int i"
| "py_repr (JStr s) = repr_str s"
| "py_repr (JArr xs) = ''['' @ join (map py_repr xs) @ '']''"
| "py_repr (JObj kvs) =
     ''{'' @ join (map (\<lambda>kv. repr_str (fst kv) @ '': '' @ py_repr (snd kv)) kvs) @ ''}''"

definition py_str :: "json \<Rightarrow> string" where
  "py_str v = (case v of JStr s \<Rightarrow> s | _ \<Rightarrow> py_repr v)"

definition str_bson :: "bson \<Rightarrow> string" where
  "str_bson b = (case b of ObjectId n \<Rightarrow> oid_str n | Val v \<Rightarrow> py_str v)"

text \<open>
  \<open>json.loads(dumps(x))\<close> with \<open>bson.json_util.dumps\<close>: an ObjectId becomes the object
  \<open>{"$oid": "<hex>"}\<close>, every other value is itself.
\<close>

definition dumps_value :: "bson \<Rightarrow> json" where
  "dumps_value b = (case b of ObjectId n \<Rightarrow> JObj [(''$oid'', JStr (oid_str n))] | Val v \<Rightarrow> v)"

definition dumps :: "document \<Rightarrow> json" where
  "dumps d = JObj (map (\<lambda>kv. (fst kv, dumps_value (snd kv))) d)"

text \<open>
  \<open>jsonify(x)\<close> on the result of \<open>find_one\<close>: Flask's encoder raises TypeError on
  an ObjectId.
\<close>

fun serialize :: "document \<Rightarrow> py_error + (string \<times> json) list" where
  "serialize [] = Inr []"
| "serialize ((k, ObjectId n) # d) = Inl TypeError"
| "serialize ((k, Val v) # d) =
     (case serialize d of Inl e \<Rightarrow> Inl e | Inr kvs \<Rightarrow> Inr ((k, v) # kvs))"

definition jsonify_document :: "document option \<Rightarrow> py_error + body" where
  "jsonify_document x =
     (case x of
        None \<Rightarrow> Inr (Body JNull)
      | Some d \<Rightarrow> (case serialize d of Inl e \<Rightarrow> Inl e | Inr kvs \<Rightarrow> Inr (Body (JObj kvs))))"

definition jsonify :: "json \<Rightarrow> body" where
  "jsonify v = Body v"

text \<open>\<open>x[k]\<close> on a request body and on the result of \<open>find_one\<close>.\<close>

definition subscript :: "json \<Rightarrow> string \<Rightarrow> py_error + json" where
  "subscript x k =
     (case x of
        JObj kvs \<Rightarrow> (case map_of kvs k of None \<Rightarrow> Inl (KeyError k) | Some v \<Rightarrow> Inr v)
      | _ \<Rightarrow> Inl TypeError)"

definition subscript_document :: "document option \<Rightarrow> string \<Rightarrow> py_error + bson" where
  "subscript_document x k =
     (case x of
        None \<Rightarrow> Inl TypeError
      | Some d \<Rightarrow> (case map_of d k of None \<Rightarrow> Inl (KeyError k) | Some v \<Rightarrow> Inr v))"


definition truthy_document :: "document option \<Rightarrow> bool" where
  "truthy_document x = (case x of None \<Rightarrow> False | Some d \<Rightarrow> d \<noteq> [])"

section \<open>The driver and the server\<close>

text \<open>
  What \<open>bson\<close> can encode: every integer within 64 bits, no key with a NUL.
\<close>

fun encodable :: "json \<Rightarrow> bool" where
  "encodable (JInt i) = (- (2 ^ 63) \<le> i \<and> i < 2 ^ 63)"
| "encodable (JArr xs) = (\<forall>x \<in> set xs. encodable x)"
| "encodable (JObj kvs) =
     (\<forall>kv \<in> set kvs. CHR 0x00 \<notin> set (fst kv) \<and> encodable (snd kv))"
| "encodable _ = True"

text \<open>
  A plain field name has a character, no dot, and no dollar in front; a plain value has
  only plain field names, at every depth. What the driver and the server do with the
  other names has changed from version to version.
\<close>

definition plain_key :: "string \<Rightarrow> bool" where
  "plain_key k = (k \<noteq> [] \<and> hd k \<noteq> CHR ''$'' \<and> CHR ''.'' \<notin> set k)"

fun plain :: "json \<Rightarrow> bool" where
  "plain (JArr xs) = (\<forall>x \<in> set xs. plain x)"
| "plain (JObj kvs) = (\<forall>kv \<in> set kvs. plain_key (fst kv) \<and> plain (snd kv))"
| "plain _ = True"

text \<open>
  The deployment, where the code leaves it open: how the server reads an operator
  document given as the value of a filter (\<open>None\<close>: it refuses the filter), whether a
  document with a field name that is not plain can be inserted (\<open>Some e\<close>: the insert
  raises \<open>e\<close>), and what \<open>$set\<close> does with an update that is empty or has such a name
  (a path into the document, or an error).
\<close>

record server =
  operator_filter :: "(string \<times> json) list \<Rightarrow> (document \<Rightarrow> bool) option"
  special_insert :: "(string \<times> json) list \<Rightarrow> py_error option"
  special_set :: "(string \<times> json) list \<Rightarrow> document \<Rightarrow> py_error + document"

text \<open>
  The state of the database: the documents of \<open>db.songs\<close> in their natural order, the
  number of the next ObjectId, and the outcome of the driver calls to come (\<open>True\<close>: the
  call raises and changes nothing). Every driver call takes the head of \<open>faults\<close>; an
  empty list is a database that answers.
\<close>

record db =
  docs :: "document list"
  next_oid :: nat
  faults :: "bool list"

type_synonym 'a action = "db \<Rightarrow> (py_error + 'a) \<times> db"

definition return :: "'a \<Rightarrow> 'a action" where
  "return x s = (Inr x, s)"

definition raise :: "py_error \<Rightarrow> 'a action" where
  "raise e s = (Inl e, s)"

definition bind :: "'a action \<Rightarrow> ('a \<Rightarrow> 'b action) \<Rightarrow> 'b action" where
  "bind m f s = (case m s of (Inl e, s') \<Rightarrow> (Inl e, s') | (Inr x, s') \<Rightarrow> f x s')"

definition lift :: "py_error + 'a \<Rightarrow> 'a action" where
  "lift r = (case r of Inl e \<Rightarrow> raise e | Inr x \<Rightarrow> return x)"

definition tick :: "db \<Rightarrow> db" where
  "tick s = s\<lparr>faults := tl (faults s)\<rparr>"

definition driver_call :: "'a action \<Rightarrow> 'a action" where
  "driver_call op s =
     (if faults s \<noteq> [] \<and> hd (faults s) then (Inl ConnectionFailure, tick s) else op (tick s))"

text \<open>
  The filter \<open>{"id": v}\<close> for a value \<open>v\<close> that is not an operator document: a document
  matches when its field \<open>id\<close> equals \<open>v\<close> or is an array with an element equal to \<open>v\<close>;
  \<open>null\<close> also matches a document without the field.
\<close>

definition matches :: "json \<Rightarrow> document \<Rightarrow> bool" where
  "matches v d =
     (case map_of d ''id'' of
        None \<Rightarrow> v = JNull
      | Some (ObjectId n) \<Rightarrow> False
      | Some (Val (JArr xs)) \<Rightarrow> v = JArr xs \<or> v \<in> set xs
      | Some (Val x) \<Rightarrow> x = v)"

text \<open>An embedded document whose first field name starts with a dollar is an operator document.\<close>

definition operator_document :: "(string \<times> json) list \<Rightarrow> bool" where
  "operator_document kvs =
     (case kvs of [] \<Rightarrow> False | kv # _ \<Rightarrow> fst kv \<noteq> [] \<and> hd (fst kv) = CHR ''$'')"

definition id_filter :: "server \<Rightarrow> json \<Rightarrow> (document \<Rightarrow> bool) option" where
  "id_filter srv v =
     (case v of
        JObj kvs \<Rightarrow> if operator_document kvs then operator_filter srv kvs else Some (matches v)
      | _ \<Rightarrow> Some (matches v))"

definition ping :: "unit action" where
  "ping = driver_call (return ())"

definition count_documents :: "nat action" where
  "count_documents = driver_call (\<lambda>s. (Inr (length (docs s)), s))"

definition find_all :: "document list action" where
  "find_all = driver_call (\<lambda>s. (Inr (docs s), s))"

text \<open>
  A call with a filter: once the server is reached, the driver encodes the filter, and
  the server reads it.
\<close>

definition with_filter :: "server \<Rightarrow> json \<Rightarrow> ((document \<Rightarrow> bool) \<Rightarrow> 'a action) \<Rightarrow> 'a action" where
  "with_filter srv v op =
     driver_call
       (\<lambda>s. if \<not> encodable v then (Inl EncodingError, s)
            else case id_filter srv v of
                   None \<Rightarrow> (Inl OperationFailure, s)
                 | Some P \<Rightarrow> op P s)"

definition find_one :: "server \<Rightarrow> json \<Rightarrow> document option action" where
  "find_one srv v = with_filter srv v (\<lambda>P s. (Inr (find P (docs s)), s))"

definition to_document :: "(string \<times> json) list \<Rightarrow> document" where
  "to_document kvs = map (\<lambda>kv. (fst kv, Val (snd kv))) kvs"

text \<open>
  The driver gives a document without \<open>_id\<close> a new ObjectId before it sends it, and
  writes \<open>_id\<close> as the first field.
\<close>

definition with_id :: "(string \<times> json) list \<Rightarrow> nat \<Rightarrow> (bson \<times> document) \<times> nat" where
  "with_id kvs n =
     (case map_of kvs ''_id'' of
        None \<Rightarrow> ((ObjectId n, (''_id'', ObjectId n) # to_document kvs), Suc n)
      | Some v \<Rightarrow>
          ((Val v, (''_id'', Val v) # to_document (filter (\<lambda>kv. fst kv \<noteq> ''_id'') kvs)), n))"

definition id_taken :: "bson \<Rightarrow> document list \<Rightarrow> bool" where
  "id_taken i ds = (\<exists>d \<in> set ds. map_of d ''_id'' = Some i)"

text \<open>
  Storing the document made from the fields \<open>kvs\<close>: a document with a name that is not
  plain is for the deployment to take or refuse; the server refuses an array as \<open>_id\<close>
  and a client-supplied \<open>_id\<close> that is in use; a generated ObjectId is new by
  construction.
\<close>

definition store ::
  "server \<Rightarrow> (string \<times> json) list \<times> bson \<times> document \<Rightarrow> document list \<Rightarrow> py_error + document list"
where
  "store srv p ds =
     (case (if plain (JObj (fst p)) then None else special_insert srv (fst p)) of
        Some e \<Rightarrow> Inl e
      | None \<Rightarrow>
          (case fst (snd p) of
             ObjectId n \<Rightarrow> Inr (ds @ [snd (snd p)])
           | Val (JArr xs) \<Rightarrow> Inl WriteError
           | Val v \<Rightarrow>
               if id_taken (Val v) ds then Inl DuplicateKeyError
               else Inr (ds @ [snd (snd p)])))"

definition insert_one :: "server \<Rightarrow> json \<Rightarrow> bson action" where
  "insert_one srv document s =
     (case document of
        JObj kvs \<Rightarrow>
          (let (p, n) = with_id kvs (next_oid s)
           in driver_call
                (\<lambda>s'. if \<not> encodable document then (Inl EncodingError, s')
                      else case store srv (kvs, p) (docs s') of
                             Inl e \<Rightarrow> (Inl e, s')
                           | Inr ds \<Rightarrow> (Inr (fst p), s'\<lparr>docs := ds\<rparr>))
                (s\<lparr>next_oid := n\<rparr>))
      | _ \<Rightarrow> (Inl TypeError, s))"





text \<open>
  \<open>$set\<close> with the fields \<open>kvs\<close> on a document: when there is a field and all names are
  plain, the server refuses to change \<open>_id\<close> and otherwise writes the fields of \<open>kvs\<close>
  into the document, leaving the others of its fields alone; the other updates are for
  the deployment.
\<close>

definition set_fields :: "server \<Rightarrow> (string \<times> json) list \<Rightarrow> document \<Rightarrow> py_error + document" where
  "set_fields srv kvs d =
     (if kvs \<noteq> [] \<and> plain (JObj kvs)
      then (case map_of kvs ''_id'' of
              None \<Rightarrow> Inr (AList.merge d (to_document kvs))
            | Some v \<Rightarrow>
                if map_of d ''_id'' = Some (Val v) then Inr (AList.merge d (to_document kvs))
                else Inl WriteError)
      else special_set srv kvs d)"

fun update_first ::
  "(document \<Rightarrow> bool) \<Rightarrow> (document \<Rightarrow> py_error + document) \<Rightarrow> document list
     \<Rightarrow> py_error + document list"
where
  "update_first P f [] = Inr []"
| "update_first P f (d # ds) =
     (if P d
      then (case f d of Inl e \<Rightarrow> Inl e | Inr d' \<Rightarrow> Inr (d' # ds))
      else (case update_first P f ds of Inl e \<Rightarrow> Inl e | Inr ds' \<Rightarrow> Inr (d # ds')))"

text \<open>
  \<open>update_one({"id": v}, {"$set": update})\<close>: the driver encodes filter and update; the
  server rejects a \<open>$set\<close> that is not a document, and applies it to the first document
  that matches.
\<close>

definition update_one :: "server \<Rightarrow> json \<Rightarrow> json \<Rightarrow> unit action" where
  "update_one srv v update =
     with_filter srv v
       (\<lambda>P s. if \<not> encodable update then (Inl EncodingError, s)
              else case update of
                     JObj kvs \<Rightarrow>
                       (case update_first P (set_fields srv kvs) (docs s) of
                          Inl e \<Rightarrow> (Inl e, s)
                        | Inr ds \<Rightarrow> (Inr (), s\<lparr>docs := ds\<rparr>))
                   | _ \<Rightarrow> (Inl WriteError, s))"

fun delete_first :: "(document \<Rightarrow> bool) \<Rightarrow> document list \<Rightarrow> document list" where
  "delete_first P [] = []"
| "delete_first P (d # ds) = (if P d then ds else d # delete_first P ds)"

text \<open>\<open>delete_one({"id": v})\<close> returns \<open>deleted_count\<close>.\<close>

definition delete_one :: "server \<Rightarrow> json \<Rightarrow> nat action" where
  "delete_one srv v =
     with_filter srv v
       (\<lambda>P s. (Inr (if find P (docs s) = None then 0 else 1),
               s\<lparr>docs := delete_first P (docs s)\<rparr>))"

section \<open>Startup\<close>



section \<open>Endpoints\<close>

definition message :: "string \<Rightarrow> string \<Rightarrow> json" where
  "message k text = JObj [(k, JStr text)]"

text \<open>The \<open>try\<close> ... \<open>except Exception as e\<close> of every handler.\<close>

definition try_except :: "response action \<Rightarrow> db \<Rightarrow> response \<times> db" where
  "try_except m s =
     (case m s of (Inl e, s') \<Rightarrow> ((ErrorBody e, 500), s') | (Inr r, s') \<Rightarrow> (r, s'))"

definition get_json :: "json option \<Rightarrow> py_error + json" where
  "get_json request = (case request of None \<Rightarrow> Inl BadRequest | Some v \<Rightarrow> Inr v)"

definition health :: "db \<Rightarrow> response \<times> db" where
  "health s =
     (case ping s of
        (Inl e, s') \<Rightarrow> ((UnhealthyBody e, 500), s')
      | (Inr _, s') \<Rightarrow> ((jsonify (message ''status'' ''OK''), 200), s'))"

definition count :: "db \<Rightarrow> response \<times> db" where
  "count =
     try_except
       (bind count_documents (\<lambda>count.
        return (jsonify (JObj [(''count'', JInt (int count))]), 200)))"

definition songs :: "db \<Rightarrow> response \<times> db" where
  "songs =
     try_except
       (bind find_all (\<lambda>songs_data.
        return (jsonify (JObj [(''songs'', JArr (map dumps songs_data))]), 200)))"

definition get_song_by_id :: "server \<Rightarrow> int \<Rightarrow> db \<Rightarrow> response \<times> db" where
  "get_song_by_id srv id' =
     try_except
       (bind (find_one srv (JInt id')) (\<lambda>song.
        case song of
          None \<Rightarrow> return (jsonify (message ''message'' ''song with id not found''), 404)
        | Some d \<Rightarrow> return (jsonify (dumps d), 200)))"

definition create_song :: "server \<Rightarrow> json option \<Rightarrow> db \<Rightarrow> response \<times> db" where
  "create_song srv request =
     try_except
       (bind (lift (get_json request)) (\<lambda>song_data.
        bind (lift (subscript song_data ''id'')) (\<lambda>i.
        bind (find_one srv i) (\<lambda>found.
        if truthy_document found
        then bind (lift (subscript song_data ''id'')) (\<lambda>i'.
             return (jsonify (message ''Message''
                       (''song with id '' @ py_str i' @ '' already present'')), 302))
        else bind (insert_one srv song_data) (\<lambda>inserted_id.
             return (jsonify (message ''inserted id'' (str_bson inserted_id)), 201))))))"

text \<open>
  In \<open>update_song\<close> the two operands of \<open>and\<close> are evaluated from left to right, the
  second only when the first holds, and each \<open>==\<close> after its two subscripts. \<open>==\<close> is
  equality of the two values, as it is on strings and on integers (on other values
  Python also takes \<open>True\<close> for \<open>1\<close> and ignores the order of the keys of a dict).
\<close>

definition update_song :: "server \<Rightarrow> int \<Rightarrow> json option \<Rightarrow> db \<Rightarrow> response \<times> db" where
  "update_song srv id' request =
     try_except
       (bind (lift (get_json request)) (\<lambda>song_data.
        bind (find_one srv (JInt id')) (\<lambda>song.
        if song = None
        then return (jsonify (message ''message'' ''song not found''), 404)
        else
        bind (update_one srv (JInt id') song_data) (\<lambda>_.
        bind (find_one srv (JInt id')) (\<lambda>updated_song.
        bind (lift (subscript_document updated_song ''lyrics'')) (\<lambda>l.
        bind (lift (subscript song_data ''lyrics'')) (\<lambda>l'.
        if l = Val l'
        then
          bind (lift (subscript_document updated_song ''title'')) (\<lambda>t.
          bind (lift (subscript song_data ''title'')) (\<lambda>t'.
          if t = Val t'
          then return (jsonify (message ''message'' ''song found, but nothing updated''), 200)
          else bind (lift (jsonify_document updated_song)) (\<lambda>b. return (b, 200))))
        else bind (lift (jsonify_document updated_song)) (\<lambda>b. return (b, 200)))))))))"

definition delete_song :: "server \<Rightarrow> int \<Rightarrow> db \<Rightarrow> response \<times> db" where
  "delete_song srv id' =
     try_except
       (bind (delete_one srv (JInt id')) (\<lambda>deleted_count.
        if deleted_count = 0
        then return (jsonify (message ''message'' ''song not found''), 404)
        else return (NoBody, 204)))"

text \<open>
  The routes: method and path select the handler. A request on \<open>/song/<id>\<close> is given
  with the integer its path writes; the converter \<open><int:id>\<close> lets only digits through,
  so that a path with a negative integer matches no route and gets the framework's 404.
\<close>

datatype request =
    GET_health
  | GET_count
  | GET_song
  | GET_song_id int
  | POST_song "json option"
  | PUT_song int "json option"
  | DELETE_song int

definition no_route :: "db \<Rightarrow> response \<times> db" where
  "no_route s = ((NotFoundPage, 404), s)"

fun handle :: "server \<Rightarrow> request \<Rightarrow> db \<Rightarrow> response \<times> db" where
  "handle srv GET_health s = health s"
| "handle srv GET_count s = count s"
| "handle srv GET_song s = songs s"
| "handle srv (GET_song_id id') s = (if 0 \<le> id' then get_song_by_id srv id' s else no_route s)"
| "handle srv (POST_song request) s = create_song srv request s"
| "handle srv (PUT_song id' request) s =
     (if 0 \<le> id' then update_song srv id' request s else no_route s)"
| "handle srv (DELETE_song id') s = (if 0 \<le> id' then delete_song srv id' s else no_route s)"

fun run :: "server \<Rightarrow> request list \<Rightarrow> db \<Rightarrow> db" where
  "run srv [] s = s"
| "run srv (r # rs) s = run srv rs (snd (handle srv r s))"

section \<open>Properties: vocabulary\<close>

text \<open>A database whose driver calls to come all answer.\<close>

definition healthy :: "db \<Rightarrow> bool" where
  "healthy s = (True \<notin> set (faults s))"

text \<open>An action that reads at most: whatever it returns, the collection is as before.\<close>

definition keeps_docs :: "'a action \<Rightarrow> bool" where
  "keeps_docs m = (\<forall>s. docs (snd (m s)) = docs s)"


text \<open>
  A response body shows the internal identifier when an object in it, at any depth, has
  a field \<open>_id\<close>. The error bodies are the one-field objects \<open>{"error": ...}\<close> and
  \<open>{"status": ..., "error": ...}\<close>.
\<close>

fun has_internal_id :: "json \<Rightarrow> bool" where
  "has_internal_id (JObj kvs) =
     (''_id'' \<in> set (map fst kvs) \<or> (\<exists>kv \<in> set kvs. has_internal_id (snd kv)))"
| "has_internal_id (JArr xs) = (\<exists>x \<in> set xs. has_internal_id x)"
| "has_internal_id _ = False"

definition exposes_id :: "body \<Rightarrow> bool" where
  "exposes_id b = (case b of Body v \<Rightarrow> has_internal_id v | _ \<Rightarrow> False)"

text \<open>
  The application-level ids of the collection, document by document (a document without
  the field has none), their uniqueness, and their being integers.
\<close>

definition ids :: "document list \<Rightarrow> bson list" where
  "ids ds = List.map_filter (\<lambda>d. map_of d ''id'') ds"









text \<open>
  Concrete data for the examples: a deployment (it refuses operator documents and
  updates that are not plain, and stores every document), a song payload, a seed list
  of two songs, an empty database, a database that holds one song and answers, and the
  same database when it cannot be reached (its next driver call raises).
\<close>

definition a_server :: server where
  "a_server =
     \<lparr>operator_filter = (\<lambda>kvs. None),
      special_insert = (\<lambda>kvs. None),
      special_set = (\<lambda>kvs d. Inl WriteError)\<rparr>"

definition song_payload :: "int \<Rightarrow> string \<Rightarrow> string \<Rightarrow> json" where
  "song_payload i t l = JObj [(''id'', JInt i), (''title'', JStr t), (''lyrics'', JStr l)]"


definition empty_db :: db where
  "empty_db = \<lparr>docs = [], next_oid = 0, faults = []\<rparr>"

definition one_song_db :: db where
  "one_song_db =
     \<lparr>docs = [[(''_id'', ObjectId 0), (''id'', Val (JInt 1)),
               (''title'', Val (JStr ''a'')), (''lyrics'', Val (JStr ''b''))]],
      next_oid = 1, faults = [False]\<rparr>"

definition unreachable_db :: db where
  "unreachable_db = one_song_db\<lparr>faults := [True]\<rparr>"

section \<open>The monad and the driver\<close>

lemma tick_fields [simp]:
  "docs (tick s) = docs s" "next_oid (tick s) = next_oid s" "faults (tick s) = tl (faults s)"
  by (simp_all add: tick_def)

lemma tick_update:
  "tick (s\<lparr>next_oid := n\<rparr>) = (tick s)\<lparr>next_oid := n\<rparr>"
  "tick (s\<lparr>docs := ds\<rparr>) = (tick s)\<lparr>docs := ds\<rparr>"
  by (simp_all add: tick_def)

lemma healthy_tick [simp]: "healthy s \<Longrightarrow> healthy (tick s)"
  by (cases "faults s") (simp_all add: healthy_def)

lemma healthy_update [simp]:
  "healthy (s\<lparr>docs := ds\<rparr>) = healthy s" "healthy (s\<lparr>next_oid := n\<rparr>) = healthy s"
  by (simp_all add: healthy_def)

lemma driver_call_healthy: "healthy s \<Longrightarrow> driver_call op s = op (tick s)"
  by (cases "faults s") (auto simp: driver_call_def healthy_def)

lemma bind_return_raise [simp]:
  "bind (return x) f = f x" "bind (raise e) f = raise e"
  by (auto simp: bind_def return_def raise_def fun_eq_iff)

lemma lift_simps [simp]: "lift (Inl e) = raise e" "lift (Inr x) = return x"
  by (simp_all add: lift_def)

lemma bind_Inr: "m s = (Inr x, s') \<Longrightarrow> bind m f s = f x s'"
  by (simp add: bind_def)

lemma bind_Inl: "m s = (Inl e, s') \<Longrightarrow> bind m f s = (Inl e, s')"
  by (simp add: bind_def)

lemma try_except_simps [simp]:
  "try_except (return r) s = (r, s)" "try_except (raise e) s = ((ErrorBody e, 500), s)"
  by (simp_all add: try_except_def return_def raise_def)

lemma healthy_one_song_db: "healthy one_song_db"
  by (simp add: healthy_def one_song_db_def)

lemma two_63: "(2::int) ^ 63 = 9223372036854775808"
  by simp

lemma encodable_path: "0 \<le> n \<Longrightarrow> n < 2 ^ 63 \<Longrightarrow> encodable (JInt n)"
  by simp

lemma id_filter_int [simp]: "id_filter srv (JInt n) = Some (matches (JInt n))"
  by (simp add: id_filter_def)


lemma with_filter_healthy:
  "healthy s \<Longrightarrow> encodable v \<Longrightarrow> id_filter srv v = Some P \<Longrightarrow>
   with_filter srv v op s = op P (tick s)"
  by (simp add: with_filter_def driver_call_healthy)

lemma find_one_healthy:
  "healthy s \<Longrightarrow> encodable v \<Longrightarrow> id_filter srv v = Some P \<Longrightarrow>
   find_one srv v s = (Inr (find P (docs s)), tick s)"
  by (simp add: find_one_def with_filter_healthy)

lemma find_None_iff_no_match: "(find P ds = None) = (\<forall>d \<in> set ds. \<not> P d)"
  by (auto simp: find_None_iff)



lemma oid_str_1: "oid_str (Suc 0) = ''000000000000000000000001''"
  by code_simp


lemma handle_routed:
  "0 \<le> n \<Longrightarrow> handle srv (GET_song_id n) s = get_song_by_id srv n s"
  "0 \<le> n \<Longrightarrow> handle srv (PUT_song n request) s = update_song srv n request s"
  "0 \<le> n \<Longrightarrow> handle srv (DELETE_song n) s = delete_song srv n s"
  by simp_all

section \<open>GET /song/<id>\<close>

lemma get_song_by_id_found:
  assumes "healthy s" and "encodable (JInt n)" and "find (matches (JInt n)) (docs s) = Some d"
  shows "get_song_by_id srv n s = ((Body (dumps d), 200), tick s)"
  using assms
  by (simp add: get_song_by_id_def try_except_def bind_def find_one_healthy return_def
      jsonify_def del: encodable.simps)

lemma get_song_by_id_missing:
  assumes "healthy s" and "encodable (JInt n)" and "find (matches (JInt n)) (docs s) = None"
  shows "get_song_by_id srv n s
           = ((Body (JObj [(''message'', JStr ''song with id not found'')]), 404), tick s)"
  using assms
  by (simp add: get_song_by_id_def try_except_def bind_def find_one_healthy return_def
      jsonify_def message_def del: encodable.simps)

text \<open>
  C8, as amended. For every integer id from 0 to below \<open>2^63\<close> such that no document of
  the collection matches the filter on that id (none has it as its \<open>id\<close>, nor in an
  array that is its \<open>id\<close>), and a database that answers, \<open>GET /song/<id>\<close> returns
  status 404 with the body \<open>{"message": "song with id not found"}\<close>, and the collection
  is unchanged.
\<close>

theorem get_song_by_id_not_found:
  assumes "healthy s" and "0 \<le> n" and "n < 2 ^ 63"
    and "\<forall>d \<in> set (docs s). \<not> matches (JInt n) d"
  shows "fst (handle srv (GET_song_id n) s)
           = (Body (JObj [(''message'', JStr ''song with id not found'')]), 404)
       \<and> docs (snd (handle srv (GET_song_id n) s)) = docs s"
proof -
  have "find (matches (JInt n)) (docs s) = None"
    using assms(4) by (simp add: find_None_iff_no_match)
  from get_song_by_id_missing [OF assms(1) encodable_path [OF assms(2,3)] this]
  show ?thesis
    using assms(2) by simp
qed

theorem get_song_by_id_not_found_witness:
  "healthy one_song_db
   \<and> map (\<lambda>d. map_of d ''id'') (docs one_song_db) = [Some (Val (JInt 1))]
   \<and> fst (handle a_server (GET_song_id 2) one_song_db)
         = (Body (JObj [(''message'', JStr ''song with id not found'')]), 404)
   \<and> docs (snd (handle a_server (GET_song_id 2) one_song_db)) = docs one_song_db"
proof -
  have h: "\<forall>d \<in> set (docs one_song_db). \<not> matches (JInt 2) d"
    by (simp add: one_song_db_def matches_def)
  have "(2::int) < 2 ^ 63"
    by simp
  from get_song_by_id_not_found [OF healthy_one_song_db _ this h, of a_server]
    healthy_one_song_db
  show ?thesis
    by (simp add: one_song_db_def)
qed

text \<open>
  C8 as stated fails for an integer the driver cannot encode: no document has the id
  \<open>2^63\<close>, \<open>find_one\<close> raises and the handler answers 500. It fails as well when a
  document has an array with the integer as its \<open>id\<close>, which the filter matches.
\<close>

theorem get_song_by_id_beyond_64_bits:
  "map (\<lambda>d. map_of d ''id'') (docs one_song_db) = [Some (Val (JInt 1))]
   \<and> fst (handle a_server (GET_song_id 9223372036854775808) one_song_db)
       = (ErrorBody EncodingError, 500)
   \<and> fst (handle a_server (GET_song_id 7)
            (one_song_db\<lparr>docs := [[(''_id'', ObjectId 0), (''id'', Val (JArr [JInt 7]))]]\<rparr>))
       = (Body (JObj [(''_id'', JObj [(''$oid'', JStr ''000000000000000000000000'')]),
                      (''id'', JArr [JInt 7])]), 200)"
  by code_simp

section \<open>POST /song\<close>



lemma map_of_to_document: "map_of (to_document kvs) k = map_option Val (map_of kvs k)"
  by (induction kvs) (auto simp: to_document_def)

lemma find_append:
  "find P (xs @ ys) = (case find P xs of None \<Rightarrow> find P ys | Some x \<Rightarrow> Some x)"
  by (induction xs) auto

lemma dumps_generated:
  "dumps ((k, ObjectId n) # to_document kvs) = JObj ((k, JObj [(''$oid'', JStr (oid_str n))]) # kvs)"
  by (simp add: dumps_def dumps_value_def to_document_def comp_def)

lemma with_id_generated:
  "map_of kvs ''_id'' = None \<Longrightarrow>
   with_id kvs n = ((ObjectId n, (''_id'', ObjectId n) # to_document kvs), Suc n)"
  by (simp add: with_id_def)

lemma insert_one_generated:
  assumes "healthy s" and "map_of kvs ''_id'' = None"
    and "plain (JObj kvs)" and "encodable (JObj kvs)"
  shows "insert_one srv (JObj kvs) s =
           (Inr (ObjectId (next_oid s)),
            (tick s)\<lparr>next_oid := Suc (next_oid s),
                     docs := docs s @ [(''_id'', ObjectId (next_oid s)) # to_document kvs]\<rparr>)"
proof -
  have "healthy (s\<lparr>next_oid := Suc (next_oid s)\<rparr>)"
    using assms(1) by simp
  then show ?thesis
    using assms(2,3,4)
    by (simp add: insert_one_def with_id_generated driver_call_healthy store_def tick_update
        del: encodable.simps plain.simps)
qed


lemma create_song_not_found:
  assumes "healthy s" and "map_of kvs ''id'' = Some v" and "encodable v"
    and "id_filter srv v = Some P" and "\<not> truthy_document (find P (docs s))"
  shows "create_song srv (Some (JObj kvs)) s =
           try_except (bind (insert_one srv (JObj kvs)) (\<lambda>inserted_id.
             return (jsonify (message ''inserted id'' (str_bson inserted_id)), 201)))
             (tick s)"
  using assms
  by (simp add: create_song_def get_json_def subscript_def try_except_def
      bind_def find_one_healthy return_def jsonify_def message_def)

lemma create_song_fresh:
  assumes "healthy s" and "map_of kvs ''id'' = Some v" and "encodable v"
    and "id_filter srv v = Some P" and "\<forall>d \<in> set (docs s). \<not> P d"
    and "map_of kvs ''_id'' = None" and "plain (JObj kvs)" and "encodable (JObj kvs)"
  shows "create_song srv (Some (JObj kvs)) s =
           ((Body (JObj [(''inserted id'', JStr (oid_str (next_oid s)))]), 201),
            (tick (tick s))\<lparr>next_oid := Suc (next_oid s),
               docs := docs s @ [(''_id'', ObjectId (next_oid s)) # to_document kvs]\<rparr>)"
proof -
  have "find P (docs s) = None"
    using assms(5) by (simp add: find_None_iff_no_match)
  then have f: "\<not> truthy_document (find P (docs s))"
    by (simp add: truthy_document_def)
  have i: "insert_one srv (JObj kvs) (tick s) =
           (Inr (ObjectId (next_oid s)),
            (tick (tick s))\<lparr>next_oid := Suc (next_oid s),
               docs := docs s @ [(''_id'', ObjectId (next_oid s)) # to_document kvs]\<rparr>)"
    using insert_one_generated [of "tick s" kvs srv] assms(1,6,7,8) by simp
  show ?thesis
    by (simp add: create_song_not_found [OF assms(1,2,3,4) f] try_except_def return_def
        bind_def i jsonify_def message_def str_bson_def)
qed





text \<open>
  C6, as amended. For every song payload \<open>p\<close> (an object with plain field names and
  integers within 64 bits, no \<open>_id\<close> of its own, and an integer \<open>id\<close> from 0 to below
  \<open>2^63\<close>) whose id no document of the collection matches, on a database that answers,
  POST /song with body \<open>p\<close> followed by \<open>GET /song/<p.id>\<close> returns status 200 with an
  object that holds the generated \<open>_id\<close> followed by the fields of \<open>p\<close>: every field of
  \<open>p\<close> appears in it with the same value.
\<close>

theorem create_then_get:
  assumes "healthy s" and "map_of kvs ''id'' = Some (JInt n)" and "0 \<le> n" and "n < 2 ^ 63"
    and "map_of kvs ''_id'' = None" and "plain (JObj kvs)" and "encodable (JObj kvs)"
    and "\<forall>d \<in> set (docs s). \<not> matches (JInt n) d"
  shows "fst (handle srv (GET_song_id n) (snd (handle srv (POST_song (Some (JObj kvs))) s)))
           = (Body (JObj ((''_id'', JObj [(''$oid'', JStr (oid_str (next_oid s)))]) # kvs)), 200)
       \<and> (\<forall>k v. map_of kvs k = Some v \<longrightarrow>
            map_of ((''_id'', JObj [(''$oid'', JStr (oid_str (next_oid s)))]) # kvs) k = Some v)"
proof
  let ?new = "(''_id'', ObjectId (next_oid s)) # to_document kvs"
  let ?s' = "snd (handle srv (POST_song (Some (JObj kvs))) s)"
  have e: "encodable (JInt n)"
    using assms(3,4) by (rule encodable_path)
  have c: "?s' = (tick (tick s))\<lparr>next_oid := Suc (next_oid s), docs := docs s @ [?new]\<rparr>"
    by (simp add: create_song_fresh [OF assms(1,2) e id_filter_int assms(8,5,6,7)])
  have h: "healthy ?s'"
    unfolding c using assms(1) by simp
  have "find (matches (JInt n)) (docs s) = None"
    using assms(8) by (simp add: find_None_iff_no_match)
  moreover have "matches (JInt n) ?new"
    using assms(2) by (simp add: matches_def map_of_to_document)
  ultimately have "find (matches (JInt n)) (docs ?s') = Some ?new"
    unfolding c by (simp add: find_append)
  from get_song_by_id_found [OF h e this]
  show "fst (handle srv (GET_song_id n) ?s')
           = (Body (JObj ((''_id'', JObj [(''$oid'', JStr (oid_str (next_oid s)))]) # kvs)), 200)"
    using assms(3) by (simp add: dumps_generated)
  show "\<forall>k v. map_of kvs k = Some v \<longrightarrow>
            map_of ((''_id'', JObj [(''$oid'', JStr (oid_str (next_oid s)))]) # kvs) k = Some v"
    using assms(5) by auto
qed

theorem create_then_get_witness:
  "healthy one_song_db
   \<and> fst (handle a_server (GET_song_id 2)
           (snd (handle a_server (POST_song (Some (song_payload 2 ''c'' ''d''))) one_song_db)))
       = (Body (JObj [(''_id'', JObj [(''$oid'', JStr ''000000000000000000000001'')]),
                      (''id'', JInt 2), (''title'', JStr ''c''), (''lyrics'', JStr ''d'')]), 200)"
proof -
  have "\<forall>d \<in> set (docs one_song_db). \<not> matches (JInt 2) d"
    by (simp add: one_song_db_def matches_def)
  from create_then_get [OF healthy_one_song_db _ _ _ _ _ _ this,
      of "[(''id'', JInt 2), (''title'', JStr ''c''), (''lyrics'', JStr ''d'')]" a_server]
    healthy_one_song_db
  show ?thesis
    by (simp add: song_payload_def one_song_db_def oid_str_1 plain_key_def)
qed

text \<open>
  C6 as stated fails for a payload with a negative id: the POST inserts it, and the
  path of the GET, with its minus sign, matches no route. It fails as well for an id
  from \<open>2^63\<close> on, which the POST cannot encode.
\<close>

theorem create_then_get_negative_id:
  "fst (handle a_server (POST_song (Some (song_payload (- 5) ''a'' ''b''))) empty_db)
     = (Body (JObj [(''inserted id'', JStr ''000000000000000000000000'')]), 201)
   \<and> fst (handle a_server (GET_song_id (- 5))
           (snd (handle a_server (POST_song (Some (song_payload (- 5) ''a'' ''b''))) empty_db)))
       = (NotFoundPage, 404)
   \<and> fst (handle a_server (POST_song (Some (song_payload 9223372036854775808 ''a'' ''b'')))
           empty_db)
       = (ErrorBody EncodingError, 500)"
  by code_simp

section \<open>DELETE /song/<id>\<close>

lemma delete_one_healthy:
  "healthy s \<Longrightarrow> encodable v \<Longrightarrow> id_filter srv v = Some P \<Longrightarrow>
   delete_one srv v s = (Inr (if find P (docs s) = None then 0 else 1),
                         (tick s)\<lparr>docs := delete_first P (docs s)\<rparr>)"
  by (simp add: delete_one_def with_filter_healthy)

lemma delete_first_no_match: "find P ds = None \<Longrightarrow> delete_first P ds = ds"
  by (induction ds) (auto split: if_splits)

lemma length_delete_first:
  "find P ds \<noteq> None \<Longrightarrow> Suc (length (delete_first P ds)) = length ds"
  by (induction ds) auto

lemma filter_delete_first: "filter P (delete_first P ds) = tl (filter P ds)"
  by (induction ds) auto

lemma find_filter_Nil: "filter P xs = [] \<Longrightarrow> find P xs = None"
  by (induction xs) (auto split: if_splits)

lemma delete_song_healthy:
  assumes "healthy s" and "encodable (JInt n)"
  shows "delete_song srv n s =
           (if find (matches (JInt n)) (docs s) = None
            then ((Body (JObj [(''message'', JStr ''song not found'')]), 404), tick s)
            else ((NoBody, 204), (tick s)\<lparr>docs := delete_first (matches (JInt n)) (docs s)\<rparr>))"
  using assms
  by (simp add: delete_song_def try_except_def bind_def delete_one_healthy return_def
      jsonify_def message_def delete_first_no_match del: encodable.simps)

text \<open>
  C9, as amended. For every integer id from 0 to below \<open>2^63\<close>, on a database that
  answers: when no document matches the filter on that id (none has it as its \<open>id\<close>,
  nor in an array that is its \<open>id\<close>), \<open>DELETE /song/<id>\<close> returns status 404 with
  \<open>{"message": "song not found"}\<close> and leaves the collection unchanged; when some
  document matches, the handler removes the first such document, and only that one,
  and returns status 204 with an empty body; a following \<open>GET /song/<id>\<close> returns 404
  when that document was the only one to match.
\<close>

theorem delete_song_first_match:
  assumes "healthy s" and "0 \<le> n" and "n < 2 ^ 63"
  shows "((\<forall>d \<in> set (docs s). \<not> matches (JInt n) d) \<longrightarrow>
            fst (handle srv (DELETE_song n) s)
              = (Body (JObj [(''message'', JStr ''song not found'')]), 404)
            \<and> docs (snd (handle srv (DELETE_song n) s)) = docs s)
       \<and> ((\<exists>d \<in> set (docs s). matches (JInt n) d) \<longrightarrow>
            fst (handle srv (DELETE_song n) s) = (NoBody, 204)
            \<and> docs (snd (handle srv (DELETE_song n) s))
                = delete_first (matches (JInt n)) (docs s)
            \<and> Suc (length (docs (snd (handle srv (DELETE_song n) s)))) = length (docs s)
            \<and> (length (filter (matches (JInt n)) (docs s)) = 1 \<longrightarrow>
                 fst (handle srv (GET_song_id n) (snd (handle srv (DELETE_song n) s)))
                   = (Body (JObj [(''message'', JStr ''song with id not found'')]), 404)))"
proof (intro conjI impI)
  have e: "encodable (JInt n)"
    using assms(2,3) by (rule encodable_path)
  note del = delete_song_healthy [OF assms(1) e, of srv]
  {
    assume "\<forall>d \<in> set (docs s). \<not> matches (JInt n) d"
    then have f: "find (matches (JInt n)) (docs s) = None"
      by (simp add: find_None_iff_no_match)
    show "fst (handle srv (DELETE_song n) s)
        = (Body (JObj [(''message'', JStr ''song not found'')]), 404)"
      using f assms(2) by (simp add: del)
    show "docs (snd (handle srv (DELETE_song n) s)) = docs s"
      using f assms(2) by (simp add: del)
  }
  {
    assume "\<exists>d \<in> set (docs s). matches (JInt n) d"
    then have f: "find (matches (JInt n)) (docs s) \<noteq> None"
      by (simp add: find_None_iff_no_match)
    then have "delete_song srv n s
        = ((NoBody, 204), (tick s)\<lparr>docs := delete_first (matches (JInt n)) (docs s)\<rparr>)"
      by (simp add: del)
    then have d: "handle srv (DELETE_song n) s
        = ((NoBody, 204), (tick s)\<lparr>docs := delete_first (matches (JInt n)) (docs s)\<rparr>)"
      by (simp only: handle_routed [OF assms(2)])
    show "fst (handle srv (DELETE_song n) s) = (NoBody, 204)"
      unfolding d by simp
    show "docs (snd (handle srv (DELETE_song n) s)) = delete_first (matches (JInt n)) (docs s)"
      unfolding d by simp
    show "Suc (length (docs (snd (handle srv (DELETE_song n) s)))) = length (docs s)"
      unfolding d using f by (simp add: length_delete_first)
    assume "length (filter (matches (JInt n)) (docs s)) = 1"
    then have "tl (filter (matches (JInt n)) (docs s)) = []"
      by (cases "filter (matches (JInt n)) (docs s)") auto
    then have "find (matches (JInt n)) (docs (snd (handle srv (DELETE_song n) s))) = None"
      unfolding d by (simp add: find_filter_Nil filter_delete_first)
    moreover have "healthy (snd (handle srv (DELETE_song n) s))"
      unfolding d using assms(1) by simp
    ultimately show "fst (handle srv (GET_song_id n) (snd (handle srv (DELETE_song n) s)))
        = (Body (JObj [(''message'', JStr ''song with id not found'')]), 404)"
      by (simp only: handle_routed [OF assms(2)] get_song_by_id_missing [OF _ e] fst_conv)
  }
qed

theorem delete_song_first_match_witness:
  "healthy one_song_db
   \<and> fst (handle a_server (DELETE_song 2) one_song_db)
       = (Body (JObj [(''message'', JStr ''song not found'')]), 404)
   \<and> docs (snd (handle a_server (DELETE_song 2) one_song_db)) = docs one_song_db
   \<and> fst (handle a_server (DELETE_song 1) one_song_db) = (NoBody, 204)
   \<and> docs (snd (handle a_server (DELETE_song 1) one_song_db)) = []
   \<and> fst (handle a_server (GET_song_id 1) (snd (handle a_server (DELETE_song 1) one_song_db)))
       = (Body (JObj [(''message'', JStr ''song with id not found'')]), 404)"
proof -
  have "(0::int) \<le> 1 \<and> (1::int) < 2 ^ 63 \<and> (0::int) \<le> 2 \<and> (2::int) < 2 ^ 63"
    by simp
  with delete_song_first_match [OF healthy_one_song_db, of 1 a_server]
    delete_song_first_match [OF healthy_one_song_db, of 2 a_server] healthy_one_song_db
  show ?thesis
    by (simp add: one_song_db_def matches_def)
qed

text \<open>
  C9 as stated fails when two documents share the id. Two POSTs and a PUT whose body
  carries the other song's id lead to such a collection; DELETE then answers 204 and
  the following GET still answers 200.
\<close>

theorem delete_song_leaves_duplicate:
  "fst (handle a_server (DELETE_song 1)
         (run a_server
            [POST_song (Some (song_payload 1 ''a'' ''b'')),
             POST_song (Some (song_payload 2 ''c'' ''d'')),
             PUT_song 2 (Some (song_payload 1 ''e'' ''f''))] empty_db)) = (NoBody, 204)
   \<and> snd (fst (handle a_server (GET_song_id 1) (snd (handle a_server (DELETE_song 1)
         (run a_server
            [POST_song (Some (song_payload 1 ''a'' ''b'')),
             POST_song (Some (song_payload 2 ''c'' ''d'')),
             PUT_song 2 (Some (song_payload 1 ''e'' ''f''))] empty_db))))) = 200"
  by code_simp

section \<open>PUT /song/<id>\<close>

lemma keeps_docs_return [simp]: "keeps_docs (return x)"
  by (simp add: keeps_docs_def return_def)

lemma keeps_docs_raise [simp]: "keeps_docs (raise e)"
  by (simp add: keeps_docs_def raise_def)

lemma keeps_docs_lift [simp]: "keeps_docs (lift r)"
  by (cases r) simp_all

lemma keeps_docs_bind:
  "keeps_docs m \<Longrightarrow> (\<And>x. keeps_docs (f x)) \<Longrightarrow> keeps_docs (bind m f)"
  unfolding keeps_docs_def bind_def
  by (auto split: prod.splits sum.splits) (metis snd_conv)+

lemma keeps_docs_if:
  "keeps_docs a \<Longrightarrow> keeps_docs b \<Longrightarrow> keeps_docs (if c then a else b)"
  by simp

lemma keeps_docs_driver_call: "keeps_docs op \<Longrightarrow> keeps_docs (driver_call op)"
  by (simp add: keeps_docs_def driver_call_def)

lemma keeps_docs_with_filter:
  "(\<And>P. keeps_docs (op P)) \<Longrightarrow> keeps_docs (with_filter srv v op)"
  unfolding with_filter_def
  by (rule keeps_docs_driver_call) (auto simp: keeps_docs_def split: option.splits)

lemma keeps_docs_find_one [simp]: "keeps_docs (find_one srv v)"
  unfolding find_one_def by (rule keeps_docs_with_filter) (simp add: keeps_docs_def)

lemma keeps_docs_find_all [simp]: "keeps_docs find_all"
  unfolding find_all_def by (rule keeps_docs_driver_call) (simp add: keeps_docs_def)

lemma keeps_docs_count_documents [simp]: "keeps_docs count_documents"
  unfolding count_documents_def by (rule keeps_docs_driver_call) (simp add: keeps_docs_def)

lemma keeps_docs_ping [simp]: "keeps_docs ping"
  unfolding ping_def by (rule keeps_docs_driver_call) simp

lemma docs_try_except [simp]: "docs (snd (try_except m s)) = docs (snd (m s))"
  by (simp add: try_except_def split: prod.splits sum.splits)

lemma keeps_docsD: "keeps_docs m \<Longrightarrow> docs (snd (m s)) = docs s"
  by (simp add: keeps_docs_def)

lemma find_Some_split:
  "find P xs = Some d \<Longrightarrow> \<exists>pre post. xs = pre @ d # post \<and> (\<forall>x \<in> set pre. \<not> P x) \<and> P d"
proof (induction xs)
  case Nil
  then show ?case by simp
next
  case (Cons x xs)
  show ?case
  proof (cases "P x")
    case True
    with Cons.prems have "x = d" by simp
    with True have "x # xs = [] @ d # xs \<and> (\<forall>y \<in> set []. \<not> P y) \<and> P d" by simp
    then show ?thesis by blast
  next
    case False
    with Cons obtain pre post where "xs = pre @ d # post" "\<forall>y \<in> set pre. \<not> P y" "P d"
      by auto
    with False have "x # xs = (x # pre) @ d # post \<and> (\<forall>y \<in> set (x # pre). \<not> P y) \<and> P d"
      by simp
    then show ?thesis by blast
  qed
qed

lemma find_split_first:
  "\<forall>x \<in> set pre. \<not> P x \<Longrightarrow> P d \<Longrightarrow> find P (pre @ d # post) = Some d"
  by (induction pre) auto

lemma update_first_split:
  assumes "\<forall>x \<in> set pre. \<not> P x" and "P d"
  shows "update_first P f (pre @ d # post) =
           (case f d of Inl e \<Rightarrow> Inl e | Inr d' \<Rightarrow> Inr (pre @ d' # post))"
  using assms by (induction pre) (auto split: sum.splits)

lemma update_one_healthy:
  "healthy s \<Longrightarrow> encodable v \<Longrightarrow> id_filter srv v = Some P \<Longrightarrow> encodable (JObj kvs) \<Longrightarrow>
   update_one srv v (JObj kvs) s =
     (case update_first P (set_fields srv kvs) (docs s) of
        Inl e \<Rightarrow> (Inl e, tick s)
      | Inr ds \<Rightarrow> (Inr (), (tick s)\<lparr>docs := ds\<rparr>))"
  by (simp add: update_one_def with_filter_healthy del: encodable.simps)

lemma set_fields_accepted:
  "kvs \<noteq> [] \<Longrightarrow> plain (JObj kvs) \<Longrightarrow>
   map_of kvs ''_id'' = None \<or> map_of d ''_id'' = map_option Val (map_of kvs ''_id'') \<Longrightarrow>
   set_fields srv kvs d = Inr (AList.merge d (to_document kvs))"
  by (auto simp: set_fields_def simp del: plain.simps split: option.splits)

lemma map_of_merged:
  "map_of (AList.merge d (to_document kvs)) k =
     (case map_of kvs k of None \<Rightarrow> map_of d k | Some v \<Rightarrow> Some (Val v))"
  by (simp add: merge_conv' map_add_def map_of_to_document split: option.splits)

lemma docs_bind_step:
  "m s = (Inr x, s') \<Longrightarrow> docs (snd (f x s')) = ds \<Longrightarrow> docs (snd (bind m f s)) = ds"
  by (simp add: bind_def)





text \<open>
  C1. What the handler does on a matching document: it compares \<open>title\<close> and \<open>lyrics\<close> of
  the document read back after the write with those of the request body, which the write
  has just made equal. So for every body that is an object with \<open>title\<close> and
  \<open>lyrics\<close> (with plain field names and integers within 64 bits, leaving \<open>_id\<close> and \<open>id\<close>
  as they are), on a database that answers, PUT returns status 200 with
  \<open>{"message": "song found, but nothing updated"}\<close>, also when the title or the lyrics
  differ from the stored ones and the document has been changed: the updated song object
  is not returned then.
\<close>

theorem update_song_reports_nothing_updated:
  assumes "healthy s" and "encodable (JInt n)"
    and "find (matches (JInt n)) (docs s) = Some d"
    and "plain (JObj kvs)" and "encodable (JObj kvs)"
    and "map_of kvs ''_id'' = None \<or> map_of d ''_id'' = map_option Val (map_of kvs ''_id'')"
    and "map_of kvs ''id'' = None \<or> map_of kvs ''id'' = Some (JInt n)"
    and "map_of kvs ''title'' = Some t" and "map_of kvs ''lyrics'' = Some l"
  shows "fst (update_song srv n (Some (JObj kvs)) s)
           = (Body (JObj [(''message'', JStr ''song found, but nothing updated'')]), 200)"
proof -
  let ?d' = "AList.merge d (to_document kvs)"
  let ?q = "JInt n"
  have k: "kvs \<noteq> []"
    using assms(8) by auto
  from find_Some_split [OF assms(3)] obtain pre post where
    p: "docs s = pre @ d # post" "\<forall>x \<in> set pre. \<not> matches ?q x" "matches ?q d"
    by blast
  have f: "find_one srv ?q s = (Inr (Some d), tick s)"
    using assms(1,2,3) by (simp add: find_one_healthy del: encodable.simps)
  have "update_first (matches ?q) (set_fields srv kvs) (docs s) = Inr (pre @ ?d' # post)"
    using p by (simp add: update_first_split set_fields_accepted [OF k assms(4,6)]
        del: plain.simps)
  then have u: "update_one srv ?q (JObj kvs) (tick s)
      = (Inr (), (tick (tick s))\<lparr>docs := pre @ ?d' # post\<rparr>)"
    using assms(1,2,5) by (simp add: update_one_healthy del: encodable.simps)
  have "matches ?q ?d'"
  proof (cases "map_of kvs ''id''")
    case None
    then have "map_of ?d' ''id'' = map_of d ''id''"
      by (simp add: map_of_merged)
    with p(3) show ?thesis
      by (simp add: matches_def)
  next
    case (Some v)
    with assms(7) have "map_of ?d' ''id'' = Some (Val ?q)"
      by (simp add: map_of_merged)
    then show ?thesis
      by (simp add: matches_def)
  qed
  then have "find (matches ?q) (pre @ ?d' # post) = Some ?d'"
    using p(2) by (simp add: find_split_first)
  then have f': "find_one srv ?q ((tick (tick s))\<lparr>docs := pre @ ?d' # post\<rparr>)
      = (Inr (Some ?d'), tick ((tick (tick s))\<lparr>docs := pre @ ?d' # post\<rparr>))"
    using assms(1,2) by (simp add: find_one_healthy del: encodable.simps)
  have m: "map_of ?d' ''lyrics'' = Some (Val l)" "map_of ?d' ''title'' = Some (Val t)"
    using assms(8,9) by (simp_all add: map_of_merged)
  show ?thesis
    using assms(8,9) m
    by (simp add: update_song_def get_json_def bind_def f u f' try_except_def return_def
        subscript_def subscript_document_def jsonify_def message_def del: encodable.simps)
qed

theorem update_song_reports_nothing_updated_witness:
  "healthy one_song_db
   \<and> map_of (hd (docs one_song_db)) ''title'' = Some (Val (JStr ''a''))
   \<and> update_song a_server 1 (Some (JObj [(''title'', JStr ''c''), (''lyrics'', JStr ''b'')]))
       one_song_db
       = ((Body (JObj [(''message'', JStr ''song found, but nothing updated'')]), 200),
          \<lparr>docs = [[(''_id'', ObjectId 0), (''id'', Val (JInt 1)),
                     (''title'', Val (JStr ''c'')), (''lyrics'', Val (JStr ''b''))]],
           next_oid = 1, faults = []\<rparr>)"
proof -
  let ?kvs = "[(''title'', JStr ''c''), (''lyrics'', JStr ''b'')]"
  have f: "find (matches (JInt 1)) (docs one_song_db) = Some (hd (docs one_song_db))"
    by (simp add: one_song_db_def matches_def)
  have c: "encodable (JInt 1)" "plain (JObj ?kvs)" "encodable (JObj ?kvs)"
    by (simp_all add: plain_key_def)
  have "fst (update_song a_server 1 (Some (JObj ?kvs)) one_song_db)
      = (Body (JObj [(''message'', JStr ''song found, but nothing updated'')]), 200)"
    by (rule update_song_reports_nothing_updated [OF healthy_one_song_db c(1) f c(2,3)])
      simp_all
  moreover have "snd (update_song a_server 1 (Some (JObj ?kvs)) one_song_db)
      = \<lparr>docs = [[(''_id'', ObjectId 0), (''id'', Val (JInt 1)),
                     (''title'', Val (JStr ''c'')), (''lyrics'', Val (JStr ''b''))]],
           next_oid = 1, faults = []\<rparr>"
    by code_simp
  moreover have "map_of (hd (docs one_song_db)) ''title'' = Some (Val (JStr ''a''))"
    by (simp add: one_song_db_def)
  ultimately show ?thesis
    using healthy_one_song_db by (simp add: prod_eq_iff)
qed

section \<open>A 500 response and the collection\<close>

text \<open>
  C3 as stated fails for PUT, which makes three driver calls (find, update, find): with
  a body that has no \<open>lyrics\<close> the handler answers 500 after its write has been applied.
\<close>

theorem update_song_500_after_write:
  "snd (fst (handle a_server (PUT_song 1 (Some (JObj [(''title'', JStr ''c'')]))) one_song_db))
     = 500
   \<and> docs (snd (handle a_server (PUT_song 1 (Some (JObj [(''title'', JStr ''c'')])))
                  one_song_db))
       = [[(''_id'', ObjectId 0), (''id'', Val (JInt 1)),
           (''title'', Val (JStr ''c'')), (''lyrics'', Val (JStr ''b''))]]
   \<and> docs (snd (handle a_server (PUT_song 1 (Some (JObj [(''title'', JStr ''c'')])))
                  one_song_db))
       \<noteq> docs one_song_db"
  by code_simp

lemma health_docs: "docs (snd (health s)) = docs s"
  using keeps_docsD [OF keeps_docs_ping, of s]
  by (cases "ping s") (auto simp: health_def split: sum.splits)

lemma count_docs: "docs (snd (count s)) = docs s"
  unfolding count_def docs_try_except
  by (rule keeps_docsD) (intro keeps_docs_bind keeps_docs_count_documents keeps_docs_return)

lemma songs_docs: "docs (snd (songs s)) = docs s"
  unfolding songs_def docs_try_except
  by (rule keeps_docsD) (intro keeps_docs_bind keeps_docs_find_all keeps_docs_return)

lemma get_song_by_id_docs: "docs (snd (get_song_by_id srv n s)) = docs s"
  unfolding get_song_by_id_def docs_try_except
  by (rule keeps_docsD)
    (auto intro!: keeps_docs_bind keeps_docs_find_one keeps_docs_return split: option.splits)

lemma no_route_docs: "docs (snd (no_route s)) = docs s"
  by (simp add: no_route_def)

lemma delete_song_500:
  "snd (fst (delete_song srv n s)) = 500 \<Longrightarrow> docs (snd (delete_song srv n s)) = docs s"
  by (auto simp: delete_song_def try_except_def bind_def delete_one_def with_filter_def
      driver_call_def return_def simp del: encodable.simps split: if_splits option.splits)

lemma insert_one_Inl: "insert_one srv v s = (Inl e, s') \<Longrightarrow> docs s' = docs s"
  by (auto simp: insert_one_def driver_call_def simp del: encodable.simps
      split: json.splits prod.splits if_splits sum.splits)

lemma create_song_not_201:
  assumes "snd (fst (create_song srv request s)) \<noteq> 201"
  shows "docs (snd (create_song srv request s)) = docs s"
proof (cases "get_json request")
  case (Inl e)
  then show ?thesis by (simp add: create_song_def)
next
  case (Inr song_data)
  show ?thesis
  proof (cases "subscript song_data ''id''")
    case (Inl e)
    with Inr show ?thesis by (simp add: create_song_def)
  next
    case i: (Inr i)
    obtain r1 s1 where f: "find_one srv i s = (r1, s1)"
      by (cases "find_one srv i s")
    have d1: "docs s1 = docs s"
      using keeps_docsD [OF keeps_docs_find_one, of srv i s] f by simp
    show ?thesis
    proof (cases r1)
      case (Inl e)
      with Inr i f d1 show ?thesis
        by (simp add: create_song_def try_except_def bind_def return_def)
    next
      case found: (Inr found)
      show ?thesis
      proof (cases "truthy_document found")
        case True
        with Inr i f d1 found show ?thesis
          by (simp add: create_song_def try_except_def bind_def return_def)
      next
        case False
        obtain r2 s2 where ins: "insert_one srv song_data s1 = (r2, s2)"
          by (cases "insert_one srv song_data s1")
        show ?thesis
        proof (cases r2)
          case (Inl e)
          with ins have "docs s2 = docs s1" by (simp add: insert_one_Inl)
          with Inr i f d1 found False ins Inl show ?thesis
            by (simp add: create_song_def try_except_def bind_def return_def)
        next
          case (Inr x)
          with \<open>get_json request = Inr song_data\<close> i f found False ins
          have "snd (fst (create_song srv request s)) = 201"
            by (simp add: create_song_def try_except_def bind_def return_def)
          with assms show ?thesis by simp
        qed
      qed
    qed
  qed
qed

lemma update_one_cases:
  assumes "update_one srv v u s = (r, s')"
  shows "(\<exists>e. r = Inl e \<and> docs s' = docs s)
       \<or> (r = Inr () \<and> (\<exists>kvs P. u = JObj kvs \<and> id_filter srv v = Some P
             \<and> update_first P (set_fields srv kvs) (docs s) = Inr (docs s')))"
  using assms
  by (auto simp: update_one_def with_filter_def driver_call_def simp del: encodable.simps
      split: json.splits if_splits sum.splits option.splits)

lemma update_song_docs_cases:
  "docs (snd (update_song srv n request s)) = docs s
   \<or> (\<exists>kvs ds. request = Some (JObj kvs)
         \<and> update_first (matches (JInt n)) (set_fields srv kvs) (docs s) = Inr ds
         \<and> docs (snd (update_song srv n request s)) = ds)"
proof (cases request)
  case None
  then show ?thesis by (simp add: update_song_def get_json_def)
next
  case (Some song_data)
  let ?q = "JInt n"
  obtain r1 s1 where f: "find_one srv ?q s = (r1, s1)"
    by (cases "find_one srv ?q s")
  have d1: "docs s1 = docs s"
    using keeps_docsD [OF keeps_docs_find_one, of srv ?q s] f by simp
  show ?thesis
  proof (cases r1)
    case (Inl e)
    with Some f d1 show ?thesis
      by (simp add: update_song_def get_json_def try_except_def bind_def)
  next
    case (Inr song)
    show ?thesis
    proof (cases song)
      case None
      with Some f d1 Inr show ?thesis
        by (simp add: update_song_def get_json_def try_except_def bind_def return_def)
    next
      case found: (Some d)
      obtain r2 s2 where u: "update_one srv ?q song_data s1 = (r2, s2)"
        by (cases "update_one srv ?q song_data s1")
      have "docs (snd (update_song srv n request s)) = docs s2"
      proof (cases r2)
        case (Inl e)
        with Some f Inr found u show ?thesis
          by (simp add: update_song_def get_json_def try_except_def bind_def)
      next
        case r2: (Inr x)
        show ?thesis
          apply (simp add: update_song_def get_json_def Some)
          apply (rule docs_bind_step)
           apply (rule f [unfolded Inr found])
          apply simp
          apply (rule docs_bind_step)
           apply (rule u [unfolded r2])
          apply (subst keeps_docsD)
           apply (intro keeps_docs_bind keeps_docs_if keeps_docs_find_one keeps_docs_lift
              keeps_docs_return)
          apply simp
          done
      qed
      with update_one_cases [OF u] d1 Some show ?thesis
        by auto
    qed
  qed
qed

text \<open>
  C3, as amended. For every request to an endpoint other than PUT \<open>/song/<id>\<close>, if the
  handler returns a 500 response then the collection is as it was before the request.
  If PUT \<open>/song/<id>\<close> returns a 500 response, the collection is either as it was or as
  the one \<open>update_one\<close> of the handler leaves it: the fields of the body written into
  the first document that matches the id.
\<close>

theorem error_500_frame:
  assumes "snd (fst (handle srv r s)) = 500"
  shows "case r of
           PUT_song n request \<Rightarrow>
             docs (snd (handle srv r s)) = docs s
             \<or> (\<exists>kvs ds. request = Some (JObj kvs)
                   \<and> update_first (matches (JInt n)) (set_fields srv kvs) (docs s) = Inr ds
                   \<and> docs (snd (handle srv r s)) = ds)
         | _ \<Rightarrow> docs (snd (handle srv r s)) = docs s"
proof (cases r)
  case (POST_song request)
  with assms show ?thesis by (simp add: create_song_not_201)
next
  case (PUT_song n request)
  with update_song_docs_cases [of srv n request s] show ?thesis
    by (simp add: no_route_docs)
next
  case (DELETE_song n)
  with assms show ?thesis
    by (cases "0 \<le> n") (simp_all add: delete_song_500 no_route_docs)
qed (simp_all add: health_docs count_docs songs_docs get_song_by_id_docs no_route_docs)

theorem error_500_frame_witness:
  "fst (handle a_server (POST_song (Some (JObj [(''title'', JStr ''c'')]))) one_song_db)
     = (ErrorBody (KeyError ''id''), 500)
   \<and> docs (snd (handle a_server (POST_song (Some (JObj [(''title'', JStr ''c'')])))
                  one_song_db))
       = docs one_song_db
   \<and> fst (handle a_server (DELETE_song 1) unreachable_db) = (ErrorBody ConnectionFailure, 500)
   \<and> docs (snd (handle a_server (DELETE_song 1) unreachable_db)) = docs unreachable_db
   \<and> fst (handle a_server (PUT_song 1 (Some (JObj [(''title'', JStr ''c'')]))) one_song_db)
       = (ErrorBody (KeyError ''lyrics''), 500)"
proof -
  have 1: "fst (handle a_server (POST_song (Some (JObj [(''title'', JStr ''c'')])))
      one_song_db) = (ErrorBody (KeyError ''id''), 500)"
    by code_simp
  have 2: "fst (handle a_server (DELETE_song 1) unreachable_db)
      = (ErrorBody ConnectionFailure, 500)"
    by code_simp
  have 3: "fst (handle a_server (PUT_song 1 (Some (JObj [(''title'', JStr ''c'')])))
      one_song_db) = (ErrorBody (KeyError ''lyrics''), 500)"
    by code_simp
  from 1 2 3
    error_500_frame [of a_server "POST_song (Some (JObj [(''title'', JStr ''c'')]))" one_song_db]
    error_500_frame [of a_server "DELETE_song 1" unreachable_db]
    error_500_frame [of a_server "PUT_song 1 (Some (JObj [(''title'', JStr ''c'')]))"
      one_song_db]
  show ?thesis by simp
qed

section \<open>Startup\<close>














section \<open>The internal identifier in responses\<close>

lemma has_internal_id_message [simp]: "has_internal_id (message k t) = (k = ''_id'')"
  by (auto simp: message_def)

lemma exposes_id_simps [simp]:
  "exposes_id (Body v) = has_internal_id v" "\<not> exposes_id (ErrorBody e)"
  "\<not> exposes_id (UnhealthyBody e)" "\<not> exposes_id NoBody" "\<not> exposes_id NotFoundPage"
  by (simp_all add: exposes_id_def)

lemma no_route_hides_id: "\<not> exposes_id (fst (fst (no_route s)))"
  by (simp add: no_route_def)

lemma no_route_404: "fst (no_route s) = (NotFoundPage, 404)"
  by (simp add: no_route_def)

lemma health_hides_id: "\<not> exposes_id (fst (fst (health s)))"
  by (cases "ping s") (auto simp: health_def jsonify_def split: sum.splits)

lemma count_hides_id: "\<not> exposes_id (fst (fst (count s)))"
  by (cases "count_documents s")
    (auto simp: count_def try_except_def bind_def return_def jsonify_def split: sum.splits)

lemma delete_song_hides_id: "\<not> exposes_id (fst (fst (delete_song srv n s)))"
  by (cases "delete_one srv (JInt n) s")
    (auto simp: delete_song_def try_except_def bind_def return_def jsonify_def split: sum.splits)

lemma create_song_hides_id: "\<not> exposes_id (fst (fst (create_song srv request s)))"
  by (auto simp: create_song_def try_except_def bind_def return_def raise_def lift_def
      jsonify_def split: sum.splits prod.splits)

lemma songs_exposes_200:
  "exposes_id (fst (fst (songs s))) \<Longrightarrow> snd (fst (songs s)) = 200"
  by (cases "find_all s")
    (auto simp: songs_def try_except_def bind_def return_def split: sum.splits)

lemma get_song_by_id_exposes_200:
  "exposes_id (fst (fst (get_song_by_id srv n s))) \<Longrightarrow> snd (fst (get_song_by_id srv n s)) = 200"
  by (cases "find_one srv (JInt n) s")
    (auto simp: get_song_by_id_def try_except_def bind_def return_def jsonify_def
      split: sum.splits option.splits)

lemma update_song_exposes_200:
  "exposes_id (fst (fst (update_song srv n request s))) \<Longrightarrow>
   snd (fst (update_song srv n request s)) = 200"
  by (auto simp: update_song_def try_except_def bind_def return_def raise_def lift_def
      jsonify_def split: sum.splits prod.splits if_splits)

lemma dumps_exposes: "map_of d ''_id'' \<noteq> None \<Longrightarrow> has_internal_id (dumps d)"
  by (auto simp: dumps_def map_of_eq_None_iff image_image)

lemma songs_healthy:
  "healthy s \<Longrightarrow>
   songs s = ((Body (JObj [(''songs'', JArr (map dumps (docs s)))]), 200), tick s)"
  by (simp add: songs_def try_except_def bind_def find_all_def driver_call_healthy
      return_def jsonify_def)

lemma get_song_by_id_unencodable:
  "healthy s \<Longrightarrow> \<not> encodable (JInt n) \<Longrightarrow>
   get_song_by_id srv n s = ((ErrorBody EncodingError, 500), tick s)"
  by (simp add: get_song_by_id_def try_except_def bind_def find_one_def with_filter_def
      driver_call_healthy del: encodable.simps)

text \<open>
  C4, as amended. A response body has a field \<open>_id\<close> only when it is a 200 response of
  \<open>GET /song\<close>, of \<open>GET /song/<id>\<close> or of PUT \<open>/song/<id>\<close>: the bodies of \<open>/health\<close>,
  \<open>/count\<close>, POST (the 201 acknowledgement carries the identifier as the value of
  \<open>inserted id\<close>) and DELETE, and every 404, 302 and 500 body, have none. On a database
  that answers, \<open>GET /song/<id>\<close> returns the first document that matches the id with all
  its fields, its \<open>_id\<close> included (for an id from 0 to below \<open>2^63\<close>; a larger one cannot
  be encoded, which gives 500, and a negative one matches no route), and \<open>GET /song\<close>
  returns every document in the same way.
\<close>

theorem internal_id_exposure:
  "(exposes_id (fst (fst (handle srv r s))) \<longrightarrow>
      snd (fst (handle srv r s)) = 200
      \<and> (r = GET_song \<or> (\<exists>n. r = GET_song_id n) \<or> (\<exists>n request. r = PUT_song n request)))
   \<and> (healthy s \<and> find (matches (JInt n)) (docs s) = Some d \<longrightarrow>
        fst (handle srv (GET_song_id n) s)
          = (if n < 0 then (NotFoundPage, 404)
             else if n < 2 ^ 63 then (Body (dumps d), 200)
             else (ErrorBody EncodingError, 500))
        \<and> (map_of d ''_id'' \<noteq> None \<longrightarrow> exposes_id (Body (dumps d))))
   \<and> (healthy s \<longrightarrow>
        fst (handle srv GET_song s)
          = (Body (JObj [(''songs'', JArr (map dumps (docs s)))]), 200))"
proof (intro conjI impI)
  assume e: "exposes_id (fst (fst (handle srv r s)))"
  show "snd (fst (handle srv r s)) = 200"
    using e
    by (cases r)
      (simp_all add: health_hides_id count_hides_id delete_song_hides_id create_song_hides_id
        songs_exposes_200 get_song_by_id_exposes_200 update_song_exposes_200
        no_route_hides_id split: if_splits)
  show "r = GET_song \<or> (\<exists>n. r = GET_song_id n) \<or> (\<exists>n request. r = PUT_song n request)"
    using e
    by (cases r)
      (simp_all add: health_hides_id count_hides_id delete_song_hides_id create_song_hides_id
        no_route_hides_id split: if_splits)
next
  assume a: "healthy s \<and> find (matches (JInt n)) (docs s) = Some d"
  consider "n < 0" | "0 \<le> n" "n < 2 ^ 63" | "0 \<le> n" "\<not> n < 2 ^ 63"
    by linarith
  then show "fst (handle srv (GET_song_id n) s)
      = (if n < 0 then (NotFoundPage, 404)
         else if n < 2 ^ 63 then (Body (dumps d), 200)
         else (ErrorBody EncodingError, 500))"
  proof cases
    case 1
    then show ?thesis
      by (simp add: no_route_404)
  next
    case 2
    from get_song_by_id_found [OF _ encodable_path [OF 2] , of s d srv] a 2 show ?thesis
      by simp
  next
    case 3
    then have "\<not> encodable (JInt n)"
      by simp
    from get_song_by_id_unencodable [OF _ this, of s srv] a 3 show ?thesis
      by simp
  qed
next
  assume "map_of d ''_id'' \<noteq> None"
  then show "exposes_id (Body (dumps d))"
    by (simp add: dumps_exposes)
next
  assume "healthy s"
  then show "fst (handle srv GET_song s)
      = (Body (JObj [(''songs'', JArr (map dumps (docs s)))]), 200)"
    by (simp add: songs_healthy)
qed

text \<open>
  C4 as stated fails: the song object of \<open>GET /song/<id>\<close> carries the internal
  identifier, the ObjectId rendered by \<open>dumps\<close> as \<open>{"$oid": ...}\<close>.
\<close>

theorem get_song_by_id_shows_internal_id:
  "fst (get_song_by_id a_server 1 one_song_db)
     = (Body (JObj [(''_id'', JObj [(''$oid'', JStr ''000000000000000000000000'')]),
                    (''id'', JInt 1), (''title'', JStr ''a''), (''lyrics'', JStr ''b'')]), 200)
   \<and> exposes_id (fst (fst (get_song_by_id a_server 1 one_song_db)))"
  by code_simp

theorem internal_id_exposure_witness:
  "exposes_id (fst (fst (handle a_server (GET_song_id 1) one_song_db)))
   \<and> snd (fst (handle a_server (GET_song_id 1) one_song_db)) = 200
   \<and> healthy one_song_db
   \<and> find (matches (JInt 1)) (docs one_song_db) = Some (hd (docs one_song_db))
   \<and> fst (handle a_server (GET_song_id 1) one_song_db)
       = (Body (dumps (hd (docs one_song_db))), 200)
   \<and> fst (handle a_server GET_song one_song_db)
       = (Body (JObj [(''songs'', JArr (map dumps (docs one_song_db)))]), 200)"
proof -
  have e: "exposes_id (fst (fst (handle a_server (GET_song_id 1) one_song_db)))"
    by code_simp
  have f: "find (matches (JInt 1)) (docs one_song_db) = Some (hd (docs one_song_db))"
    by (simp add: one_song_db_def matches_def)
  from e f healthy_one_song_db
    internal_id_exposure [of a_server "GET_song_id 1" one_song_db 1 "hd (docs one_song_db)"]
  show ?thesis by simp
qed

section \<open>Uniqueness of the application-level id\<close>

lemma ids_simps [simp]:
  "ids [] = []"
  "ids (d # ds) = (case map_of d ''id'' of None \<Rightarrow> ids ds | Some v \<Rightarrow> v # ids ds)"
  "ids (xs @ ys) = ids xs @ ids ys"
  by (simp_all add: ids_def map_filter_def split: option.splits)































end
